theory Spec2Isabelle
  imports Complex_Main "HOL-Library.Word"
begin

section \<open>JavaScript values used by \<^verbatim>\<open>mod.ts\<close>\<close>

text \<open>
  A JavaScript string is a sequence of 16-bit code units; a \<^verbatim>\<open>Uint8Array\<close> is a
  sequence of bytes. A value that may be \<^verbatim>\<open>undefined\<close> (an omitted argument, an
  array element read past the end) is an \<open>option\<close>, \<open>None\<close> being \<^verbatim>\<open>undefined\<close>.
\<close>

type_synonym jsstring = "16 word list"

type_synonym bytes = "8 word list"

text \<open>
  A JavaScript number. \<open>Finite q\<close> is the double whose value is \<open>q\<close> (negative zero is
  not told apart from zero).
\<close>

datatype number = NaN | PosInfinity | NegInfinity | Finite rat

text \<open>An exception leaving a call of the library or of the host.\<close>

datatype error = LibraryError | HostError

subsection \<open>\<^verbatim>\<open>String.prototype.split\<close> and \<^verbatim>\<open>Array.prototype.join\<close>\<close>

text \<open>
  \<^verbatim>\<open>text.split(separator)\<close> with a string separator and no limit (ECMA-262,
  String.prototype.split). \<open>SplitLoop R T S\<close> is the scan of the specification: \<open>T\<close> is
  the piece read since the last match (the substring from \<open>p\<close> to \<open>q\<close>) and \<open>S\<close> the
  text from \<open>q\<close> on. A match of a non-empty separator \<open>R\<close> at \<open>q\<close> closes the piece
  and moves both \<open>p\<close> and \<open>q\<close> behind the match; otherwise \<open>q\<close> advances by one code
  unit. The piece left at the end of the text is always appended.
  With the empty separator the result is the list of the code units, each a string
  of length one, and the empty list for the empty text.
\<close>

function SplitLoop :: "'a list \<Rightarrow> 'a list \<Rightarrow> 'a list \<Rightarrow> 'a list list" where
  "SplitLoop R T [] = [T]"
| "SplitLoop R T (c # S) =
     (if R \<noteq> [] \<and> take (length R) (c # S) = R
      then T # SplitLoop R [] (drop (length R) (c # S))
      else SplitLoop R (T @ [c]) S)"
  by pat_completeness auto
termination
  by (relation "measure (\<lambda>(R, T, S). length S)") auto

definition String_prototype_split :: "'a list \<Rightarrow> 'a list \<Rightarrow> 'a list list" where
  "String_prototype_split S R =
     (if R = [] then map (\<lambda>c. [c]) S else SplitLoop R [] S)"

text \<open>\<^verbatim>\<open>list.join(separator)\<close> on an array of strings.\<close>

fun Array_prototype_join :: "'a list list \<Rightarrow> 'a list \<Rightarrow> 'a list" where
  "Array_prototype_join [] sep = []"
| "Array_prototype_join [x] sep = x"
| "Array_prototype_join (x # y # ys) sep = x @ sep @ Array_prototype_join (y # ys) sep"

text \<open>Reading element \<open>i\<close> of an array: \<^verbatim>\<open>undefined\<close> past the end.\<close>

definition element :: "'a list \<Rightarrow> nat \<Rightarrow> 'a option" where
  "element a i = (if i < length a then Some (a ! i) else None)"

text \<open>A parameter with a default value takes it when the argument is \<^verbatim>\<open>undefined\<close>.\<close>

definition default_to :: "'a \<Rightarrow> 'a option \<Rightarrow> 'a" where
  "default_to d a = (case a of None \<Rightarrow> d | Some v \<Rightarrow> v)"

section \<open>The library behind \<^verbatim>\<open>mod.ts\<close> and the host\<close>

text \<open>
  \<^verbatim>\<open>mod.ts\<close> imports the segmentation engine as \<^verbatim>\<open>Lib\<close> from
  \<^verbatim>\<open>./lib/deno_jieba.generated.js\<close>. Its exports are the fields of the record below,
  named as in the import with the prefix \<open>Lib_\<close>. The engine keeps a dictionary between
  calls: \<open>'st\<close> is that state, as it is once \<^verbatim>\<open>Lib.instantiate()\<close> has run. An
  export that reads the dictionary takes the state and returns a string or throws; an
  export that changes it returns the new state, and leaves the state as it was when it
  throws. The two separators are constants of the library.
\<close>

datatype CutMode = Default | HMM | All

datatype TokenizeMode = Default | Search

record 'st Lib =
  Lib_get_row_separator :: jsstring
  Lib_get_col_separator :: jsstring
  Lib_reset :: "'st \<Rightarrow> error + 'st"
  Lib_add_word :: "'st \<Rightarrow> jsstring \<Rightarrow> number \<Rightarrow> jsstring \<Rightarrow> error + 'st"
  Lib_load_dict :: "'st \<Rightarrow> bytes \<Rightarrow> error + jsstring \<times> 'st"
  Lib_with_dict :: "'st \<Rightarrow> bytes \<Rightarrow> error + 'st"
  Lib_suggest_freq :: "'st \<Rightarrow> jsstring \<Rightarrow> error + number"
  Lib_cut_all :: "'st \<Rightarrow> jsstring \<Rightarrow> error + jsstring"
  Lib_cut :: "'st \<Rightarrow> jsstring \<Rightarrow> CutMode \<Rightarrow> error + jsstring"
  Lib_cut_for_search :: "'st \<Rightarrow> jsstring \<Rightarrow> CutMode \<Rightarrow> error + jsstring"
  Lib_tag :: "'st \<Rightarrow> jsstring \<Rightarrow> CutMode \<Rightarrow> error + jsstring"
  Lib_tokenize :: "'st \<Rightarrow> jsstring \<Rightarrow> TokenizeMode \<Rightarrow> CutMode \<Rightarrow> error + jsstring"
  Lib_extract_tags_by_tfidf :: "'st \<Rightarrow> jsstring \<Rightarrow> number \<Rightarrow> jsstring \<Rightarrow> error + jsstring"
  Lib_extract_tags_by_textrank :: "'st \<Rightarrow> jsstring \<Rightarrow> number \<Rightarrow> jsstring \<Rightarrow> error + jsstring"

text \<open>
  The argument of \<^verbatim>\<open>loadDict\<close> and \<^verbatim>\<open>withDict\<close>:
  \<^verbatim>\<open>Uint8Array | string | URL\<close>.
\<close>

datatype source = Uint8Array bytes | PathString jsstring | URL jsstring

text \<open>
  What the host supplies: \<^verbatim>\<open>Deno.readFileSync\<close>, which returns the bytes of a file or
  throws, and the conversion of a string to a number inside \<^verbatim>\<open>Number\<close> (ECMA-262,
  StringToNumber), whose rounding to a double is not modelled.
\<close>

record Host =
  Deno_readFileSync :: "source \<Rightarrow> error + bytes"
  StringToNumber :: "jsstring \<Rightarrow> number"

text \<open>\<^verbatim>\<open>Number(v)\<close> for a string or \<^verbatim>\<open>undefined\<close>: \<^verbatim>\<open>undefined\<close> gives \<^verbatim>\<open>NaN\<close>.\<close>

definition Number :: "Host \<Rightarrow> jsstring option \<Rightarrow> number" where
  "Number H v = (case v of None \<Rightarrow> NaN | Some s \<Rightarrow> StringToNumber H s)"

section \<open>\<^verbatim>\<open>mod.ts\<close>\<close>

definition List_map :: "('a \<Rightarrow> 'b) \<Rightarrow> 'a list \<Rightarrow> 'b list" where
  "List_map fn list = map fn list"

definition String_split :: "jsstring \<Rightarrow> jsstring \<Rightarrow> jsstring list" where
  "String_split separator text = String_prototype_split text separator"

definition Split_Row :: "'st Lib \<Rightarrow> jsstring \<Rightarrow> jsstring list" where
  "Split_Row L = String_split (Lib_get_row_separator L)"

definition Split_Col :: "'st Lib \<Rightarrow> jsstring \<Rightarrow> jsstring list" where
  "Split_Col L = String_split (Lib_get_col_separator L)"

text \<open>
  \<^verbatim>\<open>extractTags(fn)(sentence, top_k = 20, allowed_pos = [])\<close>. An exception of the
  library call leaves the function as it is.
\<close>

definition extractTags ::
  "'st Lib \<Rightarrow> ('st \<Rightarrow> jsstring \<Rightarrow> number \<Rightarrow> jsstring \<Rightarrow> error + jsstring) \<Rightarrow>
   'st \<Rightarrow> jsstring \<Rightarrow> number option \<Rightarrow> jsstring list option \<Rightarrow> error + jsstring list list" where
  "extractTags L fn st sentence top_k allowed_pos =
     (case fn st sentence (default_to (Finite 20) top_k)
             (Array_prototype_join (default_to [] allowed_pos) (Lib_get_col_separator L)) of
        Inl e \<Rightarrow> Inl e
      | Inr rows \<Rightarrow> Inr (List_map (Split_Col L) (Split_Row L rows)))"

text \<open>
  The interfaces \<^verbatim>\<open>Tag\<close> and \<^verbatim>\<open>Token\<close>. Both have the field \<^verbatim>\<open>word\<close>; the fields
  \<^verbatim>\<open>tag\<close> and \<^verbatim>\<open>end\<close> are written \<open>tag'\<close> and \<open>end'\<close>. The pattern
  \<^verbatim>\<open>[word, tag]\<close> binds \<^verbatim>\<open>undefined\<close> where the array is too short, and the cast
  \<^verbatim>\<open>as TagType\<close> does nothing when the program runs.
\<close>

record Worded =
  word :: "jsstring option"

record Tag = Worded +
  tag' :: "jsstring option"

record Token = Worded +
  start :: number
  end' :: number

definition Tag :: "jsstring list \<Rightarrow> Tag" where
  "Tag a = \<lparr>word = element a 0, tag' = element a 1\<rparr>"

definition Token :: "Host \<Rightarrow> jsstring list \<Rightarrow> Token" where
  "Token H a =
     \<lparr>word = element a 0, start = Number H (element a 1), end' = Number H (element a 2)\<rparr>"

definition reset :: "'st Lib \<Rightarrow> 'st \<Rightarrow> error + 'st" where
  "reset L st = Lib_reset L st"

text \<open>
  \<^verbatim>\<open>addWord(word, freg = -1, tag = "")\<close>; the parameters \<^verbatim>\<open>word\<close> and \<^verbatim>\<open>tag\<close>
  are written \<open>w\<close> and \<open>t\<close>.
\<close>

definition addWord ::
  "'st Lib \<Rightarrow> 'st \<Rightarrow> jsstring \<Rightarrow> number option \<Rightarrow> jsstring option \<Rightarrow> error + 'st" where
  "addWord L st w freg t =
     Lib_add_word L st w (default_to (Finite (- 1)) freg) (default_to [] t)"

definition loadDict :: "'st Lib \<Rightarrow> Host \<Rightarrow> 'st \<Rightarrow> source \<Rightarrow> error + jsstring \<times> 'st" where
  "loadDict L H st source =
     (case source of
        Uint8Array b \<Rightarrow> Lib_load_dict L st b
      | _ \<Rightarrow>
          (case Deno_readFileSync H source of
             Inl e \<Rightarrow> Inl e
           | Inr b \<Rightarrow> Lib_load_dict L st b))"

definition withDict :: "'st Lib \<Rightarrow> Host \<Rightarrow> 'st \<Rightarrow> source \<Rightarrow> error + 'st" where
  "withDict L H st source =
     (case source of
        Uint8Array b \<Rightarrow> Lib_with_dict L st b
      | _ \<Rightarrow>
          (case Deno_readFileSync H source of
             Inl e \<Rightarrow> Inl e
           | Inr b \<Rightarrow> Lib_with_dict L st b))"

definition suggestFreq :: "'st Lib \<Rightarrow> 'st \<Rightarrow> jsstring \<Rightarrow> error + number" where
  "suggestFreq L st w = Lib_suggest_freq L st w"

text \<open>\<^verbatim>\<open>cut(sentence, mode = CutMode.Default)\<close>.\<close>

definition cut :: "'st Lib \<Rightarrow> 'st \<Rightarrow> jsstring \<Rightarrow> CutMode option \<Rightarrow> error + jsstring list" where
  "cut L st sentence mode =
     (if default_to CutMode.Default mode = CutMode.All
      then (case Lib_cut_all L st sentence of
              Inl e \<Rightarrow> Inl e
            | Inr rows \<Rightarrow> Inr (Split_Row L rows))
      else (case Lib_cut L st sentence (default_to CutMode.Default mode) of
              Inl e \<Rightarrow> Inl e
            | Inr rows \<Rightarrow> Inr (Split_Row L rows)))"

definition cutForSearch ::
  "'st Lib \<Rightarrow> 'st \<Rightarrow> jsstring \<Rightarrow> CutMode option \<Rightarrow> error + jsstring list" where
  "cutForSearch L st sentence mode =
     (case Lib_cut_for_search L st sentence (default_to CutMode.Default mode) of
        Inl e \<Rightarrow> Inl e
      | Inr rows \<Rightarrow> Inr (Split_Row L rows))"

definition tag :: "'st Lib \<Rightarrow> 'st \<Rightarrow> jsstring \<Rightarrow> CutMode option \<Rightarrow> error + Tag list" where
  "tag L st sentence mode =
     (case Lib_tag L st sentence (default_to CutMode.Default mode) of
        Inl e \<Rightarrow> Inl e
      | Inr rows \<Rightarrow> Inr (List_map Tag (List_map (Split_Col L) (Split_Row L rows))))"

definition tokenize ::
  "'st Lib \<Rightarrow> Host \<Rightarrow> 'st \<Rightarrow> jsstring \<Rightarrow> TokenizeMode option \<Rightarrow> CutMode option \<Rightarrow>
   error + Token list" where
  "tokenize L H st sentence tokenize_mode cut_mode =
     (case Lib_tokenize L st sentence (default_to TokenizeMode.Default tokenize_mode)
             (default_to CutMode.Default cut_mode) of
        Inl e \<Rightarrow> Inl e
      | Inr rows \<Rightarrow> Inr (List_map (Token H) (List_map (Split_Col L) (Split_Row L rows))))"

definition TFIDF_extractTags ::
  "'st Lib \<Rightarrow> 'st \<Rightarrow> jsstring \<Rightarrow> number option \<Rightarrow> jsstring list option \<Rightarrow>
   error + jsstring list list" where
  "TFIDF_extractTags L = extractTags L (Lib_extract_tags_by_tfidf L)"

definition TextRank_extractTags ::
  "'st Lib \<Rightarrow> 'st \<Rightarrow> jsstring \<Rightarrow> number option \<Rightarrow> jsstring list option \<Rightarrow>
   error + jsstring list list" where
  "TextRank_extractTags L = extractTags L (Lib_extract_tags_by_textrank L)"

section \<open>Sessions of dictionary calls\<close>

text \<open>
  A call of \<^verbatim>\<open>addWord\<close> or \<^verbatim>\<open>loadDict\<close>, and the state of the engine after a sequence
  of them. A call that throws leaves the state as it was.
\<close>

datatype call = AddWord jsstring "number option" "jsstring option" | LoadDict source

fun perform :: "'st Lib \<Rightarrow> Host \<Rightarrow> 'st \<Rightarrow> call \<Rightarrow> 'st" where
  "perform L H st (AddWord w freg t) =
     (case addWord L st w freg t of Inl e \<Rightarrow> st | Inr st' \<Rightarrow> st')"
| "perform L H st (LoadDict src) =
     (case loadDict L H st src of Inl e \<Rightarrow> st | Inr (message, st') \<Rightarrow> st')"

definition session :: "'st Lib \<Rightarrow> Host \<Rightarrow> 'st \<Rightarrow> call list \<Rightarrow> 'st" where
  "session L H st calls = foldl (perform L H) st calls"

section \<open>Token spans\<close>

text \<open>
  The length of a string in code points: a high surrogate followed by a low surrogate
  is one code point, every other code unit is one.
\<close>

fun code_point_length :: "jsstring \<Rightarrow> nat" where
  "code_point_length [] = 0"
| "code_point_length [c] = 1"
| "code_point_length (c # d # cs) =
     (if 0xD800 \<le> c \<and> c \<le> 0xDBFF \<and> 0xDC00 \<le> d \<and> d \<le> 0xDFFF
      then Suc (code_point_length cs)
      else Suc (code_point_length (d # cs)))"

text \<open>
  \<open>spans_cover p ts n\<close>: the spans of the tokens \<open>ts\<close>, in order, cover the positions
  from \<open>p\<close> up to \<open>n\<close> with no gap and no overlap. Each token starts where the one
  before it ended and ends at a natural number not before its start; the last one ends
  at \<open>n\<close>. No token at all covers the empty range.
\<close>

fun spans_cover :: "nat \<Rightarrow> Token list \<Rightarrow> nat \<Rightarrow> bool" where
  "spans_cover p [] n = (p = n)"
| "spans_cover p (t # ts) n =
     (case start t of
        Finite a \<Rightarrow>
          (case end' t of
             Finite b \<Rightarrow>
               a = of_nat p \<and> of_nat p \<le> b \<and> b = of_int \<lfloor>b\<rfloor> \<and> spans_cover (nat \<lfloor>b\<rfloor>) ts n
           | _ \<Rightarrow> False)
      | _ \<Rightarrow> False)"

section \<open>The dictionary layers of the engine\<close>

text \<open>
  Modelled from the spec: the engine behind \<^verbatim>\<open>Lib.reset\<close>, \<^verbatim>\<open>Lib.add_word\<close>,
  \<^verbatim>\<open>Lib.load_dict\<close> and \<^verbatim>\<open>Lib.with_dict\<close> is not among the sources. The spec (3,
  4.1, 6) gives the lexicon as a mapping from a word to its frequency and optional
  tag, in two layers: a base lexicon loaded once and never changed, and a session
  overlay of additions and adjustments. A lookup sees the overlay on top of the base.
\<close>

type_synonym LexicalEntry = "nat \<times> jsstring option"

type_synonym lexicon = "jsstring \<rightharpoonup> LexicalEntry"

record Lexicon =
  base :: lexicon
  overlay :: lexicon

definition entries :: "Lexicon \<Rightarrow> lexicon" where
  "entries X = base X ++ overlay X"

text \<open>
  Modelled from the spec: the algorithms of the engine are not among the sources and
  the spec gives them in prose only (4.1 to 4.7). They are parameters, each a function
  of the entries the lexicon holds when it is called: the parser of a dictionary
  resource (the entries of its well-formed lines, in order; a malformed line is
  skipped), the frequency an entry without one gets, the status message of a merge,
  \<^verbatim>\<open>suggestFreq\<close>, and the segmenting, tagging and extracting operations with their
  results already joined into one string.
\<close>

record Algorithms =
  row_separator :: jsstring
  col_separator :: jsstring
  parse_resource :: "bytes \<Rightarrow> (jsstring \<times> nat option \<times> jsstring option) list"
  default_frequency :: "lexicon \<Rightarrow> jsstring \<Rightarrow> nat"
  status_message :: "nat \<Rightarrow> jsstring"
  suggest_frequency :: "lexicon \<Rightarrow> jsstring \<Rightarrow> nat"
  segment_all :: "lexicon \<Rightarrow> jsstring \<Rightarrow> error + jsstring"
  segment :: "lexicon \<Rightarrow> jsstring \<Rightarrow> CutMode \<Rightarrow> error + jsstring"
  segment_for_search :: "lexicon \<Rightarrow> jsstring \<Rightarrow> CutMode \<Rightarrow> error + jsstring"
  tag_tokens :: "lexicon \<Rightarrow> jsstring \<Rightarrow> CutMode \<Rightarrow> error + jsstring"
  tokens :: "lexicon \<Rightarrow> jsstring \<Rightarrow> TokenizeMode \<Rightarrow> CutMode \<Rightarrow> error + jsstring"
  keywords_tfidf :: "lexicon \<Rightarrow> jsstring \<Rightarrow> number \<Rightarrow> jsstring \<Rightarrow> error + jsstring"
  keywords_textrank :: "lexicon \<Rightarrow> jsstring \<Rightarrow> number \<Rightarrow> jsstring \<Rightarrow> error + jsstring"

text \<open>
  Modelled from the spec (4.1, \<^verbatim>\<open>load\<close>): the engine as constructed from the base
  lexicon, with nothing in the overlay.
\<close>

definition loaded :: "lexicon \<Rightarrow> Lexicon" where
  "loaded b = \<lparr>base = b, overlay = Map.empty\<rparr>"

text \<open>
  Modelled from the spec (4.1, \<^verbatim>\<open>reset\<close>): discards all session mutations and restores
  the lexicon to its originally loaded base state.
\<close>

definition discard_overlay :: "Lexicon \<Rightarrow> Lexicon" where
  "discard_overlay X = X\<lparr>overlay := Map.empty\<rparr>"

text \<open>
  Modelled from the spec (4.1, \<^verbatim>\<open>addWord\<close>): inserts or overwrites an entry; a
  frequency that is unspecified or negative is replaced by the one \<^verbatim>\<open>suggestFreq\<close>
  computes. A frequency that is not a finite number counts as unspecified, and an
  empty tag as none.
\<close>

definition insert_word :: "Algorithms \<Rightarrow> Lexicon \<Rightarrow> jsstring \<Rightarrow> number \<Rightarrow> jsstring \<Rightarrow> Lexicon" where
  "insert_word A X w freg t =
     X\<lparr>overlay := (overlay X)
        (w \<mapsto>
          ((case freg of
              Finite q \<Rightarrow> if q < 0 then suggest_frequency A (entries X) w else nat \<lfloor>q\<rfloor>
            | _ \<Rightarrow> suggest_frequency A (entries X) w),
           if t = [] then None else Some t))\<rparr>"

text \<open>
  Modelled from the spec (4.1, \<^verbatim>\<open>merge\<close>): the entries of the resource are added on top
  of the current state, one after the other, and nothing that is there is cleared.
\<close>

fun merge_entries ::
  "Algorithms \<Rightarrow> Lexicon \<Rightarrow> (jsstring \<times> nat option \<times> jsstring option) list \<Rightarrow> Lexicon" where
  "merge_entries A X [] = X"
| "merge_entries A X ((w, f, t) # rest) =
     merge_entries A
       (X\<lparr>overlay := (overlay X)
           (w \<mapsto> (case f of None \<Rightarrow> default_frequency A (entries X) w | Some n \<Rightarrow> n, t))\<rparr>)
       rest"

text \<open>
  Modelled from the spec (6, \<^verbatim>\<open>setDictionaryOverlay\<close>): replaces the overlay wholesale
  by the entries of the resource.
\<close>

definition replace_overlay :: "Algorithms \<Rightarrow> Lexicon \<Rightarrow> bytes \<Rightarrow> Lexicon" where
  "replace_overlay A X b = merge_entries A (discard_overlay X) (parse_resource A b)"

text \<open>
  Modelled from the spec: the library as the spec describes it. The operations on the
  dictionary never throw (7), and every reading operation is computed from the entries
  the lexicon holds at the call.
\<close>

definition engine :: "Algorithms \<Rightarrow> Lexicon Lib" where
  "engine A =
     \<lparr>Lib_get_row_separator = row_separator A,
      Lib_get_col_separator = col_separator A,
      Lib_reset = (\<lambda>X. Inr (discard_overlay X)),
      Lib_add_word = (\<lambda>X w freg t. Inr (insert_word A X w freg t)),
      Lib_load_dict =
        (\<lambda>X b. Inr (status_message A (length (parse_resource A b)),
                      merge_entries A X (parse_resource A b))),
      Lib_with_dict = (\<lambda>X b. Inr (replace_overlay A X b)),
      Lib_suggest_freq = (\<lambda>X w. Inr (Finite (of_nat (suggest_frequency A (entries X) w)))),
      Lib_cut_all = (\<lambda>X. segment_all A (entries X)),
      Lib_cut = (\<lambda>X. segment A (entries X)),
      Lib_cut_for_search = (\<lambda>X. segment_for_search A (entries X)),
      Lib_tag = (\<lambda>X. tag_tokens A (entries X)),
      Lib_tokenize = (\<lambda>X. tokens A (entries X)),
      Lib_extract_tags_by_tfidf = (\<lambda>X. keywords_tfidf A (entries X)),
      Lib_extract_tags_by_textrank = (\<lambda>X. keywords_textrank A (entries X))\<rparr>"

section \<open>A library with fixed answers\<close>

text \<open>
  The smallest library there is, for trying the statements below on concrete values:
  its separators are \<open>r\<close> and \<open>c\<close>, every export that returns a string returns \<open>out\<close>,
  and it keeps no dictionary.
\<close>

definition fixed_Lib :: "jsstring \<Rightarrow> jsstring \<Rightarrow> jsstring \<Rightarrow> unit Lib" where
  "fixed_Lib r c out =
     \<lparr>Lib_get_row_separator = r,
      Lib_get_col_separator = c,
      Lib_reset = (\<lambda>u. Inr u),
      Lib_add_word = (\<lambda>u w freg t. Inr u),
      Lib_load_dict = (\<lambda>u b. Inr (out, u)),
      Lib_with_dict = (\<lambda>u b. Inr u),
      Lib_suggest_freq = (\<lambda>u w. Inr (Finite 1)),
      Lib_cut_all = (\<lambda>u s. Inr out),
      Lib_cut = (\<lambda>u s m. Inr out),
      Lib_cut_for_search = (\<lambda>u s m. Inr out),
      Lib_tag = (\<lambda>u s m. Inr out),
      Lib_tokenize = (\<lambda>u s tm m. Inr out),
      Lib_extract_tags_by_tfidf = (\<lambda>u s k a. Inr out),
      Lib_extract_tags_by_textrank = (\<lambda>u s k a. Inr out)\<rparr>"

text \<open>
  A host with no files, whose conversion reads the empty string as zero and a string of
  decimal digits as the number it writes, and gives \<^verbatim>\<open>NaN\<close> for every other string.
\<close>

fun decimal_digits :: "nat \<Rightarrow> jsstring \<Rightarrow> nat option" where
  "decimal_digits n [] = Some n"
| "decimal_digits n (c # cs) =
     (if 0x30 \<le> c \<and> c \<le> 0x39 then decimal_digits (10 * n + (unat c - 48)) cs else None)"

definition digits_Host :: Host where
  "digits_Host =
     \<lparr>Deno_readFileSync = (\<lambda>p. Inl HostError),
      StringToNumber =
        (\<lambda>s. case decimal_digits 0 s of None \<Rightarrow> NaN | Some n \<Rightarrow> Finite (of_nat n))\<rparr>"

section \<open>Splitting and joining\<close>

text \<open>A split never returns the empty array, unless the separator is the empty string.\<close>

lemma SplitLoop_not_Nil: "SplitLoop R T S \<noteq> []"
  by (induction R T S rule: SplitLoop.induct) auto

lemma split_not_Nil: "R \<noteq> [] \<Longrightarrow> String_prototype_split S R \<noteq> []"
  by (simp add: String_prototype_split_def SplitLoop_not_Nil)

lemma split_empty_text: "R \<noteq> [] \<Longrightarrow> String_prototype_split [] R = [[]]"
  by (simp add: String_prototype_split_def)

lemma split_empty_separator: "x \<in> set (String_prototype_split S []) \<Longrightarrow> length x = 1"
  by (auto simp: String_prototype_split_def)

lemma Split_Row_not_Nil: "Lib_get_row_separator L \<noteq> [] \<Longrightarrow> Split_Row L rows \<noteq> []"
  by (simp add: Split_Row_def String_split_def split_not_Nil)

lemma Split_Row_empty: "Lib_get_row_separator L \<noteq> [] \<Longrightarrow> Split_Row L [] = [[]]"
  by (simp add: Split_Row_def String_split_def split_empty_text)

text \<open>
  The row separator of the library is not the empty string: with the empty separator
  every string \<open>cut\<close> returns has length one, and the tests of the repository expect
  words of two and of four characters.
\<close>

lemma cut_empty_row_separator:
  assumes "Lib_get_row_separator L = []"
    and "cut L st sentence mode = Inr ws"
    and "x \<in> set ws"
  shows "length x = 1"
  using assms
  by (auto simp: cut_def Split_Row_def String_split_def split_empty_separator
      split: if_splits sum.splits)

text \<open>Joining the pieces of a split with the separator gives the text back.\<close>

lemma join_Cons:
  "xs \<noteq> [] \<Longrightarrow> Array_prototype_join (x # xs) sep = x @ sep @ Array_prototype_join xs sep"
  by (cases xs) simp_all

lemma join_SplitLoop: "Array_prototype_join (SplitLoop R T S) R = T @ S"
proof (induction R T S rule: SplitLoop.induct)
  case (1 R T)
  then show ?case by simp
next
  case (2 R T c S)
  show ?case
  proof (cases "R \<noteq> [] \<and> take (length R) (c # S) = R")
    case True
    then have "Array_prototype_join (SplitLoop R T (c # S)) R
        = T @ R @ Array_prototype_join (SplitLoop R [] (drop (length R) (c # S))) R"
      by (simp add: join_Cons SplitLoop_not_Nil)
    also have "\<dots> = T @ R @ drop (length R) (c # S)"
      using 2(1) True by simp
    also have "\<dots> = T @ take (length R) (c # S) @ drop (length R) (c # S)"
      using True by simp
    finally show ?thesis by simp
  next
    case False
    then show ?thesis using 2(2) by auto
  qed
qed

lemma join_units: "Array_prototype_join (map (\<lambda>c. [c]) S) [] = S"
proof (induction S)
  case Nil
  then show ?case by simp
next
  case (Cons a S)
  then show ?case by (cases S) simp_all
qed

lemma join_split: "Array_prototype_join (String_prototype_split S R) R = S"
  by (simp add: String_prototype_split_def join_units join_SplitLoop)

lemma join_Split_Row: "Array_prototype_join (Split_Row L out) (Lib_get_row_separator L) = out"
  by (simp add: Split_Row_def String_split_def join_split)

lemma join_Split_Col: "Array_prototype_join (Split_Col L row) (Lib_get_col_separator L) = row"
  by (simp add: Split_Col_def String_split_def join_split)

text \<open>
  Splitting a join gives the pieces back when there is at least one piece and the first
  code unit of the separator occurs in none of them. So the wrapper returns the words
  of the library as they are, unless there is no word or a word holds the separator.
\<close>

lemma SplitLoop_separator_free:
  "R \<noteq> [] \<Longrightarrow> hd R \<notin> set S \<Longrightarrow> SplitLoop R T S = [T @ S]"
proof (induction S arbitrary: T)
  case Nil
  then show ?case by simp
next
  case (Cons c S)
  from Cons.prems have "take (length R) (c # S) \<noteq> R"
    by (cases R) auto
  with Cons show ?case by simp
qed

lemma SplitLoop_piece:
  "R \<noteq> [] \<Longrightarrow> hd R \<notin> set x \<Longrightarrow> SplitLoop R T (x @ R @ S) = (T @ x) # SplitLoop R [] S"
proof (induction x arbitrary: T)
  case Nil
  then show ?case by (cases R) simp_all
next
  case (Cons c x)
  from Cons.prems have "take (length R) ((c # x) @ R @ S) \<noteq> R"
    by (cases R) auto
  with Cons show ?case by simp
qed

lemma split_join:
  assumes "R \<noteq> []" and "rows \<noteq> []" and "\<forall>x \<in> set rows. hd R \<notin> set x"
  shows "String_prototype_split (Array_prototype_join rows R) R = rows"
  using assms(2,3)
proof (induction rows)
  case Nil
  then show ?case by simp
next
  case (Cons x rows)
  show ?case
  proof (cases "rows = []")
    case True
    then show ?thesis
      using assms(1) Cons.prems
      by (simp add: String_prototype_split_def SplitLoop_separator_free)
  next
    case False
    then have "SplitLoop R [] (Array_prototype_join rows R) = rows"
      using assms(1) Cons by (simp add: String_prototype_split_def)
    then show ?thesis
      using assms(1) Cons.prems False
      by (simp add: String_prototype_split_def join_Cons SplitLoop_piece)
  qed
qed

lemma cut_returns_library_words:
  assumes "Lib_get_row_separator L \<noteq> []"
    and "ws \<noteq> []"
    and "\<forall>x \<in> set ws. hd (Lib_get_row_separator L) \<notin> set x"
    and "Lib_cut L st sentence CutMode.Default
           = Inr (Array_prototype_join ws (Lib_get_row_separator L))"
  shows "cut L st sentence None = Inr ws"
  using assms by (simp add: cut_def default_to_def Split_Row_def String_split_def split_join)

text \<open>A word that is the row separator itself comes back as two empty strings.\<close>

lemma Split_Row_separator:
  "Lib_get_row_separator L \<noteq> [] \<Longrightarrow> Split_Row L (Lib_get_row_separator L) = [[], []]"
  by (cases "Lib_get_row_separator L")
    (simp_all add: Split_Row_def String_split_def String_prototype_split_def)

lemma Split_Col_columns:
  assumes "Lib_get_col_separator L \<noteq> []"
    and "cols \<noteq> []"
    and "\<forall>x \<in> set cols. hd (Lib_get_col_separator L) \<notin> set x"
  shows "Split_Col L (Array_prototype_join cols (Lib_get_col_separator L)) = cols"
  using assms by (simp add: Split_Col_def String_split_def split_join)

lemma Token_row:
  "Token H [w, a, b] = \<lparr>word = Some w, start = StringToNumber H a, end' = StringToNumber H b\<rparr>"
  by (simp add: Token_def Number_def element_def)

lemma tokenize_returns_library_rows:
  assumes "Lib_get_row_separator L \<noteq> []"
    and "rows \<noteq> []"
    and "\<forall>x \<in> set rows. hd (Lib_get_row_separator L) \<notin> set x"
    and "Lib_tokenize L st sentence TokenizeMode.Default CutMode.Default
           = Inr (Array_prototype_join rows (Lib_get_row_separator L))"
  shows "tokenize L H st sentence None None = Inr (map (\<lambda>row. Token H (Split_Col L row)) rows)"
  using assms
  by (simp add: tokenize_def default_to_def List_map_def Split_Row_def String_split_def
      split_join comp_def)

section \<open>Empty input\<close>

text \<open>
  What \<open>tag\<close> makes of the empty answer of the library: one record, of the empty word
  and no tag.
\<close>

lemma tag_empty_output:
  assumes "Lib_get_row_separator L \<noteq> []" and "Lib_get_col_separator L \<noteq> []"
    and "Lib_tag L st sentence CutMode.Default = Inr []"
  shows "tag L st sentence None = Inr [\<lparr>word = Some [], tag' = None\<rparr>]"
  using assms
  by (simp add: tag_def List_map_def Split_Row_empty default_to_def Split_Col_def
      String_split_def split_empty_text Tag_def element_def)

text \<open>
  C8: when the input text is empty, \<open>cut\<close> and the other read operations return an
  empty result sequence rather than raising an error.

  The code does not: every read operation splits the string the library returns at the
  row separator, and a split at a non-empty separator has at least one piece. Whatever
  the sentence, the mode and the library, \<open>cut\<close>, \<open>cutForSearch\<close>, \<open>tag\<close> and
  \<open>tokenize\<close> either throw or return a sequence that is not empty; and when the
  library answers the empty sentence with the empty string (no word at all), \<open>cut\<close>
  returns the one-element sequence that holds the empty string.
\<close>

theorem read_operations_never_return_empty:
  assumes "Lib_get_row_separator L \<noteq> []"
  shows "cut L st sentence mode \<noteq> Inr []
    \<and> cutForSearch L st sentence mode \<noteq> Inr []
    \<and> tag L st sentence mode \<noteq> Inr []
    \<and> tokenize L H st sentence tokenize_mode mode \<noteq> Inr []
    \<and> (Lib_cut L st [] CutMode.Default = Inr [] \<longrightarrow> cut L st [] None = Inr [[]])"
  using assms
  by (auto simp: cut_def cutForSearch_def tag_def tokenize_def List_map_def
      Split_Row_not_Nil Split_Row_empty default_to_def split: sum.splits)

text \<open>With line feed and tab as separators and a library that returns the empty string.\<close>

theorem read_operations_never_return_empty_witness:
  "cut (fixed_Lib [0x0A] [0x09] []) () [] None = Inr [[]]
   \<and> cutForSearch (fixed_Lib [0x0A] [0x09] []) () [] None \<noteq> Inr []
   \<and> tag (fixed_Lib [0x0A] [0x09] []) () [] None \<noteq> Inr []
   \<and> tokenize (fixed_Lib [0x0A] [0x09] []) digits_Host () [] None None \<noteq> Inr []"
  using read_operations_never_return_empty
    [of "fixed_Lib [0x0A] [0x09] []" "()" "[]" None digits_Host None]
  by (simp add: fixed_Lib_def)

section \<open>Keyword extraction\<close>

lemma extractTags_not_Nil:
  "Lib_get_row_separator L \<noteq> [] \<Longrightarrow> extractTags L fn st sentence top_k allowed_pos \<noteq> Inr []"
  by (auto simp: extractTags_def List_map_def Split_Row_not_Nil split: sum.splits)

lemma extractTags_empty_output:
  assumes "Lib_get_row_separator L \<noteq> []"
    and "fn st sentence (Finite 20) [] = Inr []"
  shows "extractTags L fn st sentence None None = Inr [Split_Col L []]"
  using assms by (simp add: extractTags_def List_map_def Split_Row_empty default_to_def)

lemma extractTags_Inr:
  assumes "extractTags L fn st sentence top_k allowed_pos = Inr rows"
  shows "\<exists>out. fn st sentence (default_to (Finite 20) top_k)
            (Array_prototype_join (default_to [] allowed_pos) (Lib_get_col_separator L)) = Inr out
          \<and> rows = map (Split_Col L) (Split_Row L out)
          \<and> Array_prototype_join (map (\<lambda>r. Array_prototype_join r (Lib_get_col_separator L)) rows)
               (Lib_get_row_separator L) = out"
proof -
  from assms obtain out where out:
    "fn st sentence (default_to (Finite 20) top_k)
       (Array_prototype_join (default_to [] allowed_pos) (Lib_get_col_separator L)) = Inr out"
    and rows: "rows = map (Split_Col L) (Split_Row L out)"
    by (auto simp: extractTags_def List_map_def split: sum.splits)
  have rejoined:
    "map (\<lambda>r. Array_prototype_join r (Lib_get_col_separator L)) rows = Split_Row L out"
    by (simp add: rows join_Split_Col comp_def)
  show ?thesis
    using out rows rejoined by (simp add: join_Split_Row)
qed

text \<open>
  C9: for both \<open>TFIDF_extractTags\<close> and \<open>TextRank_extractTags\<close>, a \<open>top_k\<close> that is at
  most 0 or larger than the candidate count never raises an error; the result length
  equals the minimum of \<open>top_k\<close> and the candidate count when \<open>top_k\<close> is positive, and
  the full candidate count otherwise, with \<open>top_k\<close> defaulting to 20 when omitted.

  The default is 20. The length is not the candidate count when there is no candidate:
  the result of either function is never the empty sequence, and when the library
  answers with the empty string (no row at all) the result has length one.
\<close>

theorem extractTags_without_candidates:
  assumes "Lib_get_row_separator L \<noteq> []"
  shows "TFIDF_extractTags L st sentence top_k allowed_pos \<noteq> Inr []
    \<and> TextRank_extractTags L st sentence top_k allowed_pos \<noteq> Inr []
    \<and> (Lib_extract_tags_by_tfidf L st sentence (Finite 20) [] = Inr [] \<longrightarrow>
         (\<exists>rows. TFIDF_extractTags L st sentence None None = Inr rows \<and> length rows = 1))
    \<and> (Lib_extract_tags_by_textrank L st sentence (Finite 20) [] = Inr [] \<longrightarrow>
         (\<exists>rows. TextRank_extractTags L st sentence None None = Inr rows \<and> length rows = 1))
    \<and> TFIDF_extractTags L st sentence None allowed_pos
         = TFIDF_extractTags L st sentence (Some (Finite 20)) allowed_pos
    \<and> TextRank_extractTags L st sentence None allowed_pos
         = TextRank_extractTags L st sentence (Some (Finite 20)) allowed_pos"
proof (intro conjI impI)
  show "TFIDF_extractTags L st sentence top_k allowed_pos \<noteq> Inr []"
    using assms by (simp add: TFIDF_extractTags_def extractTags_not_Nil)
  show "TextRank_extractTags L st sentence top_k allowed_pos \<noteq> Inr []"
    using assms by (simp add: TextRank_extractTags_def extractTags_not_Nil)
  show "\<exists>rows. TFIDF_extractTags L st sentence None None = Inr rows \<and> length rows = 1"
    if "Lib_extract_tags_by_tfidf L st sentence (Finite 20) [] = Inr []"
    using assms that by (simp add: TFIDF_extractTags_def extractTags_empty_output)
  show "\<exists>rows. TextRank_extractTags L st sentence None None = Inr rows \<and> length rows = 1"
    if "Lib_extract_tags_by_textrank L st sentence (Finite 20) [] = Inr []"
    using assms that by (simp add: TextRank_extractTags_def extractTags_empty_output)
  show "TFIDF_extractTags L st sentence None allowed_pos
         = TFIDF_extractTags L st sentence (Some (Finite 20)) allowed_pos"
    by (simp add: TFIDF_extractTags_def extractTags_def default_to_def)
  show "TextRank_extractTags L st sentence None allowed_pos
         = TextRank_extractTags L st sentence (Some (Finite 20)) allowed_pos"
    by (simp add: TextRank_extractTags_def extractTags_def default_to_def)
qed

theorem extractTags_without_candidates_witness:
  "TFIDF_extractTags (fixed_Lib [0x0A] [0x09] []) () [] None None = Inr [[[]]]
   \<and> TextRank_extractTags (fixed_Lib [0x0A] [0x09] []) () [] None None = Inr [[[]]]
   \<and> (\<exists>rows. TFIDF_extractTags (fixed_Lib [0x0A] [0x09] []) () [] None None = Inr rows
         \<and> length rows = 1)"
  using extractTags_without_candidates [of "fixed_Lib [0x0A] [0x09] []" "()" "[]" None None]
  by (simp add: fixed_Lib_def TFIDF_extractTags_def TextRank_extractTags_def extractTags_def
      default_to_def List_map_def Split_Row_def Split_Col_def String_split_def
      String_prototype_split_def)

text \<open>
  C10: for every input, each element returned by \<open>TFIDF_extractTags\<close> and
  \<open>TextRank_extractTags\<close> is the library's row split on the column separator into an
  array of strings; the weight component is returned as an unparsed string and is never
  converted to a number (unlike \<open>tokenize\<close>, which converts start and end to numbers).

  The rows returned are the rows of the library's answer, each split at the column
  separator, and nothing of the answer is changed on the way: joining every returned
  row with the column separator and the rows with the row separator gives the
  library's answer back, code unit for code unit. The start and the end of a token are
  the second and the third column of its row put through \<open>Number\<close>.
\<close>

theorem extractTags_rows_are_unparsed_strings:
  "(TFIDF_extractTags L st sentence top_k allowed_pos = Inr rows \<longrightarrow>
      (\<exists>out. Lib_extract_tags_by_tfidf L st sentence (default_to (Finite 20) top_k)
                (Array_prototype_join (default_to [] allowed_pos) (Lib_get_col_separator L)) = Inr out
          \<and> rows = map (Split_Col L) (Split_Row L out)
          \<and> Array_prototype_join (map (\<lambda>r. Array_prototype_join r (Lib_get_col_separator L)) rows)
               (Lib_get_row_separator L) = out))
   \<and> (TextRank_extractTags L st sentence top_k allowed_pos = Inr rows' \<longrightarrow>
      (\<exists>out. Lib_extract_tags_by_textrank L st sentence (default_to (Finite 20) top_k)
                (Array_prototype_join (default_to [] allowed_pos) (Lib_get_col_separator L)) = Inr out
          \<and> rows' = map (Split_Col L) (Split_Row L out)
          \<and> Array_prototype_join (map (\<lambda>r. Array_prototype_join r (Lib_get_col_separator L)) rows')
               (Lib_get_row_separator L) = out))
   \<and> (tokenize L H st sentence tokenize_mode cut_mode = Inr toks \<longrightarrow>
      (\<exists>out. Lib_tokenize L st sentence (default_to TokenizeMode.Default tokenize_mode)
                (default_to CutMode.Default cut_mode) = Inr out
          \<and> map start toks = map (\<lambda>row. Number H (element (Split_Col L row) 1)) (Split_Row L out)
          \<and> map end' toks = map (\<lambda>row. Number H (element (Split_Col L row) 2)) (Split_Row L out)))"
proof (intro conjI impI)
  assume "TFIDF_extractTags L st sentence top_k allowed_pos = Inr rows"
  then show "\<exists>out. Lib_extract_tags_by_tfidf L st sentence (default_to (Finite 20) top_k)
                (Array_prototype_join (default_to [] allowed_pos) (Lib_get_col_separator L)) = Inr out
          \<and> rows = map (Split_Col L) (Split_Row L out)
          \<and> Array_prototype_join (map (\<lambda>r. Array_prototype_join r (Lib_get_col_separator L)) rows)
               (Lib_get_row_separator L) = out"
    using extractTags_Inr [of L "Lib_extract_tags_by_tfidf L" st sentence top_k allowed_pos rows]
    by (auto simp: TFIDF_extractTags_def)
next
  assume "TextRank_extractTags L st sentence top_k allowed_pos = Inr rows'"
  then show "\<exists>out. Lib_extract_tags_by_textrank L st sentence (default_to (Finite 20) top_k)
                (Array_prototype_join (default_to [] allowed_pos) (Lib_get_col_separator L)) = Inr out
          \<and> rows' = map (Split_Col L) (Split_Row L out)
          \<and> Array_prototype_join (map (\<lambda>r. Array_prototype_join r (Lib_get_col_separator L)) rows')
               (Lib_get_row_separator L) = out"
    using extractTags_Inr [of L "Lib_extract_tags_by_textrank L" st sentence top_k allowed_pos rows']
    by (auto simp: TextRank_extractTags_def)
next
  assume "tokenize L H st sentence tokenize_mode cut_mode = Inr toks"
  then show "\<exists>out. Lib_tokenize L st sentence (default_to TokenizeMode.Default tokenize_mode)
                (default_to CutMode.Default cut_mode) = Inr out
          \<and> map start toks = map (\<lambda>row. Number H (element (Split_Col L row) 1)) (Split_Row L out)
          \<and> map end' toks = map (\<lambda>row. Number H (element (Split_Col L row) 2)) (Split_Row L out)"
    by (auto simp: tokenize_def List_map_def Token_def comp_def split: sum.splits)
qed

text \<open>
  A library with line feed and tab as separators that answers the extraction with two
  rows of a word and a weight (written 1.5 and 0.5), and the tokenizer with two rows of
  a word, a start and an end.
\<close>

theorem extractTags_rows_are_unparsed_strings_witness:
  "TFIDF_extractTags
      ((fixed_Lib [0x0A] [0x09]
          [0x4ECA, 0x5929, 0x09, 0x31, 0x2E, 0x35, 0x0A, 0x660E, 0x5929, 0x09, 0x30, 0x2E, 0x35])
        \<lparr>Lib_tokenize := (\<lambda>u s tm m. Inr
          [0x4ECA, 0x5929, 0x09, 0x30, 0x09, 0x32, 0x0A, 0x660E, 0x5929, 0x09, 0x32, 0x09, 0x34])\<rparr>)
      () [0x4ECA, 0x5929, 0x660E, 0x5929] None None
     = Inr [[[0x4ECA, 0x5929], [0x31, 0x2E, 0x35]], [[0x660E, 0x5929], [0x30, 0x2E, 0x35]]]
   \<and> TextRank_extractTags
      ((fixed_Lib [0x0A] [0x09]
          [0x4ECA, 0x5929, 0x09, 0x31, 0x2E, 0x35, 0x0A, 0x660E, 0x5929, 0x09, 0x30, 0x2E, 0x35])
        \<lparr>Lib_tokenize := (\<lambda>u s tm m. Inr
          [0x4ECA, 0x5929, 0x09, 0x30, 0x09, 0x32, 0x0A, 0x660E, 0x5929, 0x09, 0x32, 0x09, 0x34])\<rparr>)
      () [0x4ECA, 0x5929, 0x660E, 0x5929] None None
     = Inr [[[0x4ECA, 0x5929], [0x31, 0x2E, 0x35]], [[0x660E, 0x5929], [0x30, 0x2E, 0x35]]]
   \<and> tokenize
      ((fixed_Lib [0x0A] [0x09]
          [0x4ECA, 0x5929, 0x09, 0x31, 0x2E, 0x35, 0x0A, 0x660E, 0x5929, 0x09, 0x30, 0x2E, 0x35])
        \<lparr>Lib_tokenize := (\<lambda>u s tm m. Inr
          [0x4ECA, 0x5929, 0x09, 0x30, 0x09, 0x32, 0x0A, 0x660E, 0x5929, 0x09, 0x32, 0x09, 0x34])\<rparr>)
      digits_Host () [0x4ECA, 0x5929, 0x660E, 0x5929] None None
     = Inr [\<lparr>word = Some [0x4ECA, 0x5929], start = Finite 0, end' = Finite 2\<rparr>,
            \<lparr>word = Some [0x660E, 0x5929], start = Finite 2, end' = Finite 4\<rparr>]
   \<and> Array_prototype_join
        (map (\<lambda>r. Array_prototype_join r [0x09])
          [[[0x4ECA, 0x5929], [0x31, 0x2E, 0x35]], [[0x660E, 0x5929], [0x30, 0x2E, 0x35 :: 16 word]]])
        [0x0A]
     = [0x4ECA, 0x5929, 0x09, 0x31, 0x2E, 0x35, 0x0A, 0x660E, 0x5929, 0x09, 0x30, 0x2E, 0x35]"
  using extractTags_rows_are_unparsed_strings
    [of "(fixed_Lib [0x0A] [0x09]
          [0x4ECA, 0x5929, 0x09, 0x31, 0x2E, 0x35, 0x0A, 0x660E, 0x5929, 0x09, 0x30, 0x2E, 0x35])
        \<lparr>Lib_tokenize := (\<lambda>u s tm m. Inr
          [0x4ECA, 0x5929, 0x09, 0x30, 0x09, 0x32, 0x0A, 0x660E, 0x5929, 0x09, 0x32, 0x09, 0x34])\<rparr>"
      "()" "[0x4ECA, 0x5929, 0x660E, 0x5929]" None None
      "[[[0x4ECA, 0x5929], [0x31, 0x2E, 0x35]], [[0x660E, 0x5929], [0x30, 0x2E, 0x35]]]"
      "[[[0x4ECA, 0x5929], [0x31, 0x2E, 0x35]], [[0x660E, 0x5929], [0x30, 0x2E, 0x35]]]"
      digits_Host None None
      "[\<lparr>word = Some [0x4ECA, 0x5929], start = Finite 0, end' = Finite 2\<rparr>,
        \<lparr>word = Some [0x660E, 0x5929], start = Finite 2, end' = Finite 4\<rparr>]"]
  by (simp add: fixed_Lib_def TFIDF_extractTags_def TextRank_extractTags_def extractTags_def
      tokenize_def default_to_def List_map_def Split_Row_def Split_Col_def String_split_def
      String_prototype_split_def Token_def Number_def element_def digits_Host_def)

section \<open>Token spans of the empty text\<close>

lemma tokenize_empty_output:
  assumes "Lib_get_row_separator L \<noteq> []"
    and "Lib_tokenize L st sentence TokenizeMode.Default CutMode.Default = Inr []"
  shows "tokenize L H st sentence None None = Inr [Token H (Split_Col L [])]"
  using assms by (simp add: tokenize_def List_map_def Split_Row_empty default_to_def)

lemma Split_Col_empty_length: "length (Split_Col L []) \<le> 1"
  by (simp add: Split_Col_def String_split_def String_prototype_split_def)

lemma Token_short_row: "length a \<le> 1 \<Longrightarrow> start (Token H a) = NaN \<and> end' (Token H a) = NaN"
  by (simp add: Token_def Number_def element_def)

text \<open>
  C5: for every input text, the tokens returned by \<open>tokenize\<close> in the default
  tokenize mode have spans that, concatenated in returned order, exactly and
  contiguously cover the positions from 0 to the length of the text in code points,
  with no gaps and no overlaps.

  Not for the empty text. When the library answers it with the empty string (no token
  at all), \<open>tokenize\<close> returns one token, made from the one empty row the split
  returns: its start and its end are \<open>Number\<close> of \<^verbatim>\<open>undefined\<close>, which is \<^verbatim>\<open>NaN\<close>, and
  the token covers nothing.
\<close>

theorem tokenize_empty_text_has_no_span:
  assumes "Lib_get_row_separator L \<noteq> []"
    and "Lib_tokenize L st [] TokenizeMode.Default CutMode.Default = Inr []"
  shows "\<exists>t. tokenize L H st [] None None = Inr [t] \<and> start t = NaN \<and> end' t = NaN
    \<and> \<not> spans_cover 0 [t] (code_point_length [])"
proof -
  let ?t = "Token H (Split_Col L [])"
  have nan: "start ?t = NaN \<and> end' ?t = NaN"
    by (rule Token_short_row) (rule Split_Col_empty_length)
  have "tokenize L H st [] None None = Inr [?t]"
    using assms by (rule tokenize_empty_output)
  moreover have "\<not> spans_cover 0 [?t] (code_point_length [])"
    using nan by simp
  ultimately show ?thesis
    using nan by blast
qed

theorem tokenize_empty_text_has_no_span_witness:
  "tokenize (fixed_Lib [0x0A] [0x09] []) digits_Host () [] None None
     = Inr [\<lparr>word = Some [], start = NaN, end' = NaN\<rparr>]
   \<and> \<not> spans_cover 0 [\<lparr>word = Some [], start = NaN, end' = NaN\<rparr>] (code_point_length [])"
  using tokenize_empty_text_has_no_span [of "fixed_Lib [0x0A] [0x09] []" "()" digits_Host]
  by (simp add: fixed_Lib_def tokenize_def default_to_def List_map_def Split_Row_def
      Split_Col_def String_split_def String_prototype_split_def Token_def Number_def element_def)

section \<open>Reset\<close>

text \<open>No call of a session touches the base lexicon.\<close>

lemma base_insert_word: "base (insert_word A X w freg t) = base X"
  by (simp add: insert_word_def)

lemma base_merge_entries: "base (merge_entries A X es) = base X"
  by (induction A X es rule: merge_entries.induct) simp_all

lemma base_perform: "base (perform (engine A) H X c) = base X"
proof (cases c)
  case (AddWord w freg t)
  then show ?thesis
    by (simp add: addWord_def engine_def base_insert_word)
next
  case (LoadDict src)
  then show ?thesis
    by (cases src; cases "Deno_readFileSync H src")
      (simp_all add: loadDict_def engine_def base_merge_entries)
qed

lemma base_session: "base (session (engine A) H X calls) = base X"
  unfolding session_def
  by (induction calls arbitrary: X) (simp_all add: base_perform)

text \<open>A call does change what the reading operations see.\<close>

lemma entries_after_addWord:
  "entries (perform (engine A) H X (AddWord w (Some (Finite 10000)) (Some t))) w
     = Some (10000, if t = [] then None else Some t)"
  by (simp add: addWord_def engine_def insert_word_def entries_def default_to_def)

lemma discard_overlay_loaded: "discard_overlay X = loaded (base X)"
  by (simp add: discard_overlay_def loaded_def)

lemma reset_engine: "reset (engine A) X = Inr (loaded (base X))"
  by (simp add: reset_def engine_def discard_overlay_loaded)

text \<open>
  C2: after any sequence of \<open>addWord\<close> or \<open>loadDict\<close> calls, \<open>reset\<close> restores the
  engine to its originally loaded base state, so that \<open>cut\<close> and \<open>suggestFreq\<close> give
  exactly the same results as on a freshly loaded engine; \<open>reset\<close> is idempotent and
  safe to call with no prior mutations.

  On the engine of the spec: after any session that starts from the engine as
  loaded, \<open>reset\<close> returns that engine, in which \<open>cut\<close> and \<open>suggestFreq\<close> answer
  as they did before the session; a \<open>reset\<close> of the engine as loaded changes nothing,
  and a second \<open>reset\<close> after a first changes nothing in any state.
\<close>

theorem reset_restores_loaded_engine:
  "(\<exists>X'. reset (engine A) (session (engine A) H (loaded b) calls) = Inr X'
        \<and> X' = loaded b
        \<and> (\<forall>sentence mode. cut (engine A) X' sentence mode = cut (engine A) (loaded b) sentence mode)
        \<and> (\<forall>w. suggestFreq (engine A) X' w = suggestFreq (engine A) (loaded b) w))
   \<and> reset (engine A) (loaded b) = Inr (loaded b)
   \<and> (\<exists>X'. reset (engine A) X = Inr X' \<and> reset (engine A) X' = Inr X')"
  by (simp add: reset_engine base_session) (simp add: loaded_def)

end
